theory Spec2Isabelle
  imports Main "HOL-Library.Sublist"
begin

section \<open>The wishlist scraper of \<^verbatim>\<open>main.go\<close>\<close>

text \<open>
  The program fetches one wishlist page, cuts a JSON blob out of the HTML with a regular
  expression, prints the URL of every wishlist item of the page, asks the API for the next
  batch of items with \<^verbatim>\<open>GetWishlist\<close> and prints those too.

  Everything outside the program (the two servers, and the \<^verbatim>\<open>encoding/json\<close>
  package) is a parameter of the model, collected in the record \<open>world\<close>. What the program
  does to the outside (requests sent, lines printed) is the list of events it returns.
\<close>

subsection \<open>Data, as declared in the source\<close>

text \<open>A Go \<^verbatim>\<open>error\<close> value; \<open>Error\<close> is the message \<^verbatim>\<open>fmt.Println(err)\<close> prints.\<close>

datatype error = Err (Error: string)

record BlobTrack =
  BandName :: string
  Title :: string
  AlbumID :: int

record Item =
  Added :: string
  ItemURL :: string
  ItemType :: string

record ItemData =
  LastToken :: string
  Sequence :: "string list"
  PendingSequence :: "string list"

text \<open>
  The anonymous struct types of the fields \<^verbatim>\<open>ItemCache\<close> and \<^verbatim>\<open>FanData\<close>. A
  \<^verbatim>\<open>map[string]Item\<close> is the list of its entries in the order in which a \<^verbatim>\<open>range\<close>
  loop visits them; Go leaves that order open, so every result below is stated for all
  orders.
\<close>

record ItemCache_struct =
  Collection :: "(string \<times> Item) list"
  Wishlist :: "(string \<times> Item) list"

record FanData_struct =
  ID :: int

record DataBlob =
  TrackList :: "BlobTrack list"
  ItemCache :: ItemCache_struct
  CollectionData :: ItemData
  WishlistData :: ItemData
  FanData :: FanData_struct

record APIItemsResponse =
  Items :: "Item list"
  MoreAvailable :: bool
  LastToken :: string

text \<open>The zero value \<^verbatim>\<open>APIItemsResponse{}\<close>.\<close>

definition APIItemsResponse_zero :: APIItemsResponse where
  "APIItemsResponse_zero =
     \<lparr>Items = [], MoreAvailable = False, APIItemsResponse.LastToken = []\<rparr>"

subsection \<open>The outside world\<close>

text \<open>
  An HTTP response: its status code, and what \<^verbatim>\<open>ioutil.ReadAll(resp.Body)\<close> returns for
  it, the bytes read and the read error if there is one.
\<close>

record Response =
  StatusCode :: int
  Body :: "string \<times> error option"

text \<open>
  \<open>http_Get url\<close> and \<open>http_Post url contentType body\<close> are the answers of
  \<^verbatim>\<open>http.Get\<close> and \<^verbatim>\<open>http.Post\<close>: a transport error or a response.
  \<open>json_Marshal\<close> is \<^verbatim>\<open>json.Marshal\<close> on a \<^verbatim>\<open>map[string]string\<close>, given as the
  entries of the map (it cannot fail on such a map, and the source drops its error).
  The two \<open>Unmarshal\<close> fields are \<^verbatim>\<open>json.Unmarshal\<close> into a zero-initialised variable
  of the type: the variable's content afterwards (which may be partly filled when decoding
  fails) and the error if there is one.
\<close>

record world =
  http_Get :: "string \<Rightarrow> error + Response"
  http_Post :: "string \<Rightarrow> string \<Rightarrow> string \<Rightarrow> error + Response"
  json_Marshal :: "(string \<times> string) list \<Rightarrow> string"
  Unmarshal_DataBlob :: "string \<Rightarrow> DataBlob \<times> error option"
  Unmarshal_APIItemsResponse :: "string \<Rightarrow> APIItemsResponse \<times> error option"

datatype event =
    Get string
  | Post string string string
  | Println string

text \<open>The lines written to standard output, and the POST requests sent, in a list of events.\<close>

fun stdout :: "event list \<Rightarrow> string list" where
  "stdout [] = []"
| "stdout (Println s # es) = s # stdout es"
| "stdout (Get url # es) = stdout es"
| "stdout (Post url ct body # es) = stdout es"

fun posts :: "event list \<Rightarrow> (string \<times> string \<times> string) list" where
  "posts [] = []"
| "posts (Post url ct body # es) = (url, ct, body) # posts es"
| "posts (Get url # es) = posts es"
| "posts (Println s # es) = posts es"

text \<open>
  How the process ends: \<^verbatim>\<open>main\<close> returns (exit status 0), or the runtime panics with
  ``index out of range [i] with length n'' (a goroutine trace on standard error, exit
  status 2).
\<close>

datatype exit = Returned | Panic_index_out_of_range nat nat

record run =
  trace :: "event list"
  exit :: exit

subsection \<open>Library functions the program calls\<close>

text \<open>\<^verbatim>\<open>strconv.Itoa\<close>: the decimal form of an integer.\<close>

definition digit :: "nat \<Rightarrow> char" where
  "digit d = ''0123456789'' ! d"

function decimal :: "nat \<Rightarrow> string" where
  "decimal n = (if n < 10 then [digit n] else decimal (n div 10) @ [digit (n mod 10)])"
  by pat_completeness auto
termination
  by (relation "measure (\<lambda>n. n)") auto

declare decimal.simps [simp del]

definition Itoa :: "int \<Rightarrow> string" where
  "Itoa i = (if i < 0 then CHR ''-'' # decimal (nat (- i)) else decimal (nat i))"

text \<open>
  \<^verbatim>\<open>strings.ReplaceAll(s, old, new)\<close> for a non-empty \<open>old\<close>: the occurrences of \<open>old\<close>
  are replaced from left to right, without overlap. (For an empty \<open>old\<close> Go inserts
  \<open>new\<close> around every character; the program never does that, and the model leaves the
  string as it is.)
\<close>

function ReplaceAll :: "string \<Rightarrow> string \<Rightarrow> string \<Rightarrow> string" where
  "ReplaceAll [] old new = []"
| "ReplaceAll (c # s) old new =
     (if old \<noteq> [] \<and> prefix old (c # s)
      then new @ ReplaceAll (drop (length old) (c # s)) old new
      else c # ReplaceAll s old new)"
  by pat_completeness auto
termination
  by (relation "measure (\<lambda>(s, old, new). length s)") auto

text \<open>
  The regular expression of \<^verbatim>\<open>main\<close>,
  \<^verbatim>\<open>id="pagedata".*?data-blob="(.*?)">\<close>, has three literals around two lazy
  \<^verbatim>\<open>.*?\<close>; \<^verbatim>\<open>.\<close> matches every character but the line feed.
\<close>

definition line_feed :: char where
  "line_feed = CHR 0x0A"

definition lit_id :: string where
  \<open>lit_id = ''id="pagedata"''\<close>

definition lit_blob :: string where
  \<open>lit_blob = ''data-blob="''\<close>

definition lit_close :: string where
  \<open>lit_close = ''">''\<close>

text \<open>
  Go's \<^verbatim>\<open>regexp\<close> returns the leftmost match, and among the matches that start there the
  one a backtracking search finds first. The three functions are that search, from the
  inside out. The literals are ASCII, so matching bytes is matching runes.

  \<open>capture s\<close> matches \<^verbatim>\<open>(.*?)">\<close> at the start of \<open>s\<close> and returns the group: the
  shortest run of characters other than the line feed that \<^verbatim>\<open>">\<close> follows.
\<close>

fun capture :: "string \<Rightarrow> string option" where
  "capture [] = None"
| "capture (c # s) =
     (if prefix lit_close (c # s) then Some []
      else if c = line_feed then None
      else map_option ((#) c) (capture s))"

text \<open>
  \<open>skip s\<close> matches \<^verbatim>\<open>.*?data-blob="(.*?)">\<close> at the start of \<open>s\<close> and returns what
  the first \<^verbatim>\<open>.*?\<close> consumed, and the group. Where \<^verbatim>\<open>data-blob="\<close> stands but the
  rest does not match, the search goes on to the right.
\<close>

fun skip :: "string \<Rightarrow> (string \<times> string) option" where
  "skip [] = None"
| "skip (c # s) =
     (case (if prefix lit_blob (c # s) then capture (drop (length lit_blob) (c # s)) else None) of
        Some g \<Rightarrow> Some ([], g)
      | None \<Rightarrow>
          if c = line_feed then None
          else map_option (\<lambda>(m, g). (c # m, g)) (skip s))"

definition match_at :: "string \<Rightarrow> (string \<times> string) option" where
  "match_at s = (if prefix lit_id s then skip (drop (length lit_id) s) else None)"

fun leftmost :: "string \<Rightarrow> (string \<times> string) option" where
  "leftmost [] = None"
| "leftmost (c # s) =
     (case match_at (c # s) of Some r \<Rightarrow> Some r | None \<Rightarrow> leftmost s)"

text \<open>
  \<^verbatim>\<open>datablobExp.FindStringSubmatch\<close>: the whole match and the group, or \<^verbatim>\<open>nil\<close> (the
  empty list) when nothing matches.
\<close>

definition FindStringSubmatch :: "string \<Rightarrow> string list" where
  "FindStringSubmatch s =
     (case leftmost s of
        None \<Rightarrow> []
      | Some (m, g) \<Rightarrow> [lit_id @ m @ lit_blob @ g @ lit_close, g])"

subsection \<open>The program\<close>

definition api_url :: string where
  "api_url = ''https://bandcamp.com/api/fancollection/1/wishlist_items''"

definition page_url :: string where
  "page_url = ''https://bandcamp.com/space-llama/wishlist''"

text \<open>
  \<^verbatim>\<open>GetWishlist\<close> returns the pair of Go results and the events of the call. Only the
  failed read of the body prints inside the function.
\<close>

definition GetWishlist ::
  "world \<Rightarrow> string \<Rightarrow> string \<Rightarrow> (APIItemsResponse \<times> error option) \<times> event list" where
  "GetWishlist w fanID lastpageToken =
     (let request = [(''fan_id'', fanID), (''older_than_token'', lastpageToken)];
          requestJSON = json_Marshal w request;
          sent = Post api_url ''application/json'' requestJSON
      in case http_Post w api_url ''application/json'' requestJSON of
           Inl err \<Rightarrow> ((APIItemsResponse_zero, Some err), [sent])
         | Inr resp \<Rightarrow>
             (case Body resp of
                (body, Some err) \<Rightarrow>
                  ((APIItemsResponse_zero, Some err), [sent, Println (Error err)])
              | (body, None) \<Rightarrow>
                  (case Unmarshal_APIItemsResponse w body of
                     (response, Some err) \<Rightarrow> ((APIItemsResponse_zero, Some err), [sent])
                   | (response, None) \<Rightarrow> ((response, None), [sent]))))"

text \<open>
  The two loops of lines 136 to 143. The inner one walks the entries of the map and
  leaves at the first key equal to \<open>trackID\<close>; the outer one walks the sequence. Go may
  visit the map in another order each time the inner loop starts; what the loop prints
  depends on the entries only (\<open>range_Wishlist_map_of\<close> below), so one order stands for
  all.
\<close>

fun range_Wishlist :: "string \<Rightarrow> (string \<times> Item) list \<Rightarrow> event list" where
  "range_Wishlist trackID [] = []"
| "range_Wishlist trackID ((itemcacheID, item) # rest) =
     (if trackID = itemcacheID then [Println (ItemURL item)]
      else range_Wishlist trackID rest)"

fun range_Sequence :: "string list \<Rightarrow> (string \<times> Item) list \<Rightarrow> event list" where
  "range_Sequence [] wishlist = []"
| "range_Sequence (trackID # rest) wishlist =
     range_Wishlist trackID wishlist @ range_Sequence rest wishlist"

text \<open>
  \<^verbatim>\<open>main\<close>, statement by statement. Each checked error prints its message and returns;
  \<^verbatim>\<open>datablobMatch[1]\<close> is unchecked and panics when the slice is too short.
\<close>

definition main :: "world \<Rightarrow> run" where
  \<open>main w =
     (case http_Get w page_url of
        Inl err \<Rightarrow> \<lparr>trace = [Get page_url, Println (Error err)], exit = Returned\<rparr>
      | Inr resp \<Rightarrow>
          (case Body resp of
             (body, Some err) \<Rightarrow>
               \<lparr>trace = [Get page_url, Println (Error err)], exit = Returned\<rparr>
           | (body, None) \<Rightarrow>
               (let datablobMatch = FindStringSubmatch body in
                if 1 < length datablobMatch then
                  (let pagedata = ReplaceAll (datablobMatch ! 1) ''&quot;'' ''"'' in
                   case Unmarshal_DataBlob w pagedata of
                     (datablob, Some err) \<Rightarrow>
                       \<lparr>trace = [Get page_url, Println (Error err)], exit = Returned\<rparr>
                   | (datablob, None) \<Rightarrow>
                       (let printed = range_Sequence (Sequence (WishlistData datablob))
                                        (Wishlist (ItemCache datablob));
                            called = GetWishlist w (Itoa (ID (FanData datablob)))
                                       (ItemData.LastToken (WishlistData datablob))
                        in case fst called of
                             (nextPage, Some err) \<Rightarrow>
                               \<lparr>trace = Get page_url # printed @ snd called @
                                          [Println (Error err)],
                                exit = Returned\<rparr>
                           | (nextPage, None) \<Rightarrow>
                               \<lparr>trace = Get page_url # printed @ snd called @
                                          map (\<lambda>item. Println (ItemURL item)) (Items nextPage),
                                exit = Returned\<rparr>))
                else \<lparr>trace = [Get page_url],
                      exit = Panic_index_out_of_range 1 (length datablobMatch)\<rparr>)))\<close>

subsection \<open>Notions used to state the properties\<close>

text \<open>\<^verbatim>\<open>strings.Join(elems, sep)\<close>, to speak about the pieces between the occurrences of a separator.\<close>

fun join :: "string list \<Rightarrow> string \<Rightarrow> string" where
  "join [] sep = []"
| "join [s] sep = s"
| "join (s # t # ts) sep = s @ sep @ join (t # ts) sep"

text \<open>The one request of \<^verbatim>\<open>GetWishlist\<close>, as an event.\<close>

abbreviation wishlist_request :: "world \<Rightarrow> string \<Rightarrow> string \<Rightarrow> event" where
  "wishlist_request w fanID lastpageToken \<equiv>
     Post api_url ''application/json''
       (json_Marshal w [(''fan_id'', fanID), (''older_than_token'', lastpageToken)])"

subsection \<open>An example run\<close>

text \<open>
  A page whose blob lists the items \<open>a\<close>, \<open>x\<close>, \<open>b\<close> in its sequence and caches \<open>b\<close>
  and \<open>a\<close> (in that order, and no \<open>x\<close>), and an API answer with one more item and
  \<^verbatim>\<open>more_available\<close> false.
\<close>

definition demo_escaped :: string where
  \<open>demo_escaped = ''{&quot;item_cache&quot;:{&quot;wishlist&quot;:{&quot;b&quot;:{&quot;item_url&quot;:&quot;u2&quot;},&quot;a&quot;:{&quot;item_url&quot;:&quot;u1&quot;}}},&quot;wishlist_data&quot;:{&quot;last_token&quot;:&quot;t&quot;,&quot;sequence&quot;:[&quot;a&quot;,&quot;x&quot;,&quot;b&quot;]},&quot;fan_data&quot;:{&quot;fan_id&quot;:42}}''\<close>

definition demo_json :: string where
  \<open>demo_json = ''{"item_cache":{"wishlist":{"b":{"item_url":"u2"},"a":{"item_url":"u1"}}},"wishlist_data":{"last_token":"t","sequence":["a","x","b"]},"fan_data":{"fan_id":42}}''\<close>

definition demo_html :: string where
  \<open>demo_html = ''<html><div id="pagedata" data-blob="'' @ demo_escaped @ ''"></div></html>''\<close>

definition demo_item :: "string \<Rightarrow> Item" where
  "demo_item url = \<lparr>Added = [], ItemURL = url, ItemType = []\<rparr>"

definition ItemData_zero :: ItemData where
  "ItemData_zero = \<lparr>ItemData.LastToken = [], Sequence = [], PendingSequence = []\<rparr>"

definition DataBlob_zero :: DataBlob where
  "DataBlob_zero =
     \<lparr>TrackList = [], ItemCache = \<lparr>Collection = [], Wishlist = []\<rparr>,
      CollectionData = ItemData_zero, WishlistData = ItemData_zero,
      FanData = \<lparr>ID = 0\<rparr>\<rparr>"

definition demo_blob :: DataBlob where
  "demo_blob =
     \<lparr>TrackList = [],
      ItemCache = \<lparr>Collection = [],
                   Wishlist = [(''b'', demo_item ''u2''), (''a'', demo_item ''u1'')]\<rparr>,
      CollectionData = ItemData_zero,
      WishlistData = \<lparr>ItemData.LastToken = ''t'', Sequence = [''a'', ''x'', ''b''],
                      PendingSequence = []\<rparr>,
      FanData = \<lparr>ID = 42\<rparr>\<rparr>"

definition demo_api_json :: string where
  \<open>demo_api_json = ''{"track_list":[{"item_url":"u3"}],"more_available":false,"last_token":"t2"}''\<close>

definition demo_next :: APIItemsResponse where
  "demo_next =
     \<lparr>Items = [demo_item ''u3''], MoreAvailable = False, APIItemsResponse.LastToken = ''t2''\<rparr>"

definition demo_Marshal :: "(string \<times> string) list \<Rightarrow> string" where
  \<open>demo_Marshal m =
     ''{'' @ join (map (\<lambda>(k, v). ''"'' @ k @ ''":"'' @ v @ ''"'') m) '','' @ ''}''\<close>

definition demo_world :: world where
  "demo_world =
     \<lparr>http_Get = (\<lambda>url. if url = page_url
                      then Inr \<lparr>StatusCode = 200, Body = (demo_html, None)\<rparr>
                      else Inl (Err ''no such host'')),
      http_Post = (\<lambda>url ct body. Inr \<lparr>StatusCode = 200, Body = (demo_api_json, None)\<rparr>),
      json_Marshal = demo_Marshal,
      Unmarshal_DataBlob = (\<lambda>s. if s = demo_json then (demo_blob, None)
                      else (DataBlob_zero, Some (Err ''unexpected end of JSON input''))),
      Unmarshal_APIItemsResponse = (\<lambda>s. if s = demo_api_json then (demo_next, None)
                      else (APIItemsResponse_zero, Some (Err ''unexpected end of JSON input'')))\<rparr>"

text \<open>
  A second blob for the same page: it differs from \<open>demo_blob\<close> in the track list, the
  collection cache, the collection data, the pending sequence and the order of the entries
  of the wishlist cache.
\<close>

definition demo_blob_other :: DataBlob where
  "demo_blob_other =
     \<lparr>TrackList = [\<lparr>BandName = ''band'', Title = ''title'', AlbumID = 7\<rparr>],
      ItemCache = \<lparr>Collection = [(''c'', demo_item ''u9'')],
                   Wishlist = [(''a'', demo_item ''u1''), (''b'', demo_item ''u2'')]\<rparr>,
      CollectionData = \<lparr>ItemData.LastToken = ''z'', Sequence = [''c''],
                        PendingSequence = [''c'']\<rparr>,
      WishlistData = \<lparr>ItemData.LastToken = ''t'', Sequence = [''a'', ''x'', ''b''],
                      PendingSequence = [''b'', ''x'']\<rparr>,
      FanData = \<lparr>ID = 42\<rparr>\<rparr>"

section \<open>Properties\<close>

subsection \<open>Occurrences of a literal\<close>

text \<open>
  A literal whose first character does not come back in it cannot begin inside a text
  \<open>u\<close> and run into a copy of itself that follows \<open>u\<close>: all four literals of the program
  are of this kind.
\<close>

lemma no_straddle:
  assumes "p \<notin> set P'" and "\<not> sublist (p # P') u" and "u \<noteq> []"
  shows "\<not> prefix (p # P') (u @ (p # P') @ v)"
proof
  assume "prefix (p # P') (u @ (p # P') @ v)"
  then have "prefix (p # P') u \<or> (\<exists>us. p # P' = u @ us \<and> prefix us ((p # P') @ v))"
    by (simp only: prefix_append)
  then show False
  proof (elim disjE exE conjE)
    assume "prefix (p # P') u"
    then show False using assms(2) by (auto dest: prefix_imp_sublist)
  next
    fix us
    assume split: "p # P' = u @ us" and rest: "prefix us ((p # P') @ v)"
    obtain c u' where u: "u = c # u'" using assms(3) by (cases u) auto
    with split have P': "P' = u' @ us" by simp
    show False
    proof (cases us)
      case Nil
      with split have "u = p # P'" by simp
      with assms(2) show False by simp
    next
      case (Cons d ds)
      with rest have "d = p" by simp
      with Cons P' assms(1) show False by simp
    qed
  qed
qed

subsection \<open>The regular expression\<close>

lemma capture_found:
  assumes "\<not> sublist lit_close g" and "line_feed \<notin> set g"
  shows "capture (g @ lit_close @ post) = Some g"
  using assms
proof (induction g)
  case Nil
  then show ?case by (simp add: lit_close_def)
next
  case (Cons c g)
  have "\<not> prefix lit_close ((c # g) @ lit_close @ post)"
    using Cons.prems(1) no_straddle [of "CHR 0x22" "''>''" "c # g" post]
    by (simp add: lit_close_def)
  moreover have "\<not> sublist lit_close g"
    using Cons.prems(1) by (auto simp: sublist_Cons_right)
  moreover have "c \<noteq> line_feed"
    using Cons.prems(2) by auto
  ultimately show ?case using Cons by simp
qed

lemma skip_found:
  assumes "\<not> sublist lit_blob m" and "line_feed \<notin> set m" and "capture rest = Some g"
  shows "skip (m @ lit_blob @ rest) = Some (m, g)"
  using assms
proof (induction m)
  case Nil
  then show ?case by (simp add: lit_blob_def)
next
  case (Cons c m)
  have "\<not> prefix lit_blob ((c # m) @ lit_blob @ rest)"
    using Cons.prems(1) no_straddle [of "CHR ''d''" \<open>''ata-blob="''\<close> "c # m" rest]
    by (simp add: lit_blob_def)
  moreover have "\<not> sublist lit_blob m"
    using Cons.prems(1) by (auto simp: sublist_Cons_right)
  moreover have "c \<noteq> line_feed"
    using Cons.prems(2) by auto
  ultimately show ?case using Cons by simp
qed

lemma match_at_id: "match_at (lit_id @ rest) = skip rest"
  by (simp add: match_at_def)

lemma leftmost_found:
  assumes "\<not> sublist lit_id pre" and "match_at (lit_id @ rest) = Some r"
  shows "leftmost (pre @ lit_id @ rest) = Some r"
  using assms
proof (induction pre)
  case Nil
  then show ?case by (simp add: lit_id_def)
next
  case (Cons c pre)
  have "\<not> prefix lit_id ((c # pre) @ lit_id @ rest)"
    using Cons.prems(1) no_straddle [of "CHR ''i''" \<open>''d="pagedata"''\<close> "c # pre" rest]
    by (simp add: lit_id_def)
  then have "match_at (c # pre @ lit_id @ rest) = None"
    by (simp add: match_at_def)
  moreover have "\<not> sublist lit_id pre"
    using Cons.prems(1) by (auto simp: sublist_Cons_right)
  ultimately show ?case using Cons by simp
qed

lemma FindStringSubmatch_found:
  assumes "\<not> sublist lit_id pre"
    and "\<not> sublist lit_blob m" and "line_feed \<notin> set m"
    and "\<not> sublist lit_close g" and "line_feed \<notin> set g"
  shows "FindStringSubmatch (pre @ lit_id @ m @ lit_blob @ g @ lit_close @ post) =
           [lit_id @ m @ lit_blob @ g @ lit_close, g]"
proof -
  have "capture (g @ lit_close @ post) = Some g"
    using assms(4,5) by (rule capture_found)
  then have "skip (m @ lit_blob @ g @ lit_close @ post) = Some (m, g)"
    using assms(2,3) by (simp add: skip_found)
  then have "leftmost (pre @ lit_id @ m @ lit_blob @ g @ lit_close @ post) = Some (m, g)"
    using assms(1) by (simp add: leftmost_found match_at_id)
  then show ?thesis by (simp add: FindStringSubmatch_def)
qed

lemma leftmost_none: "\<not> sublist lit_id s \<Longrightarrow> leftmost s = None"
proof (induction s)
  case Nil
  then show ?case by simp
next
  case (Cons c s)
  then have "\<not> prefix lit_id (c # s)" by (auto dest: prefix_imp_sublist)
  moreover have "\<not> sublist lit_id s" using Cons.prems by (auto simp: sublist_Cons_right)
  ultimately show ?case using Cons.IH by (simp add: match_at_def)
qed

subsection \<open>Unescaping\<close>

lemma ReplaceAll_step:
  "\<not> prefix old (c # s) \<Longrightarrow> ReplaceAll (c # s) old new = c # ReplaceAll s old new"
  by simp

lemma ReplaceAll_hit:
  "old \<noteq> [] \<Longrightarrow> ReplaceAll (old @ s) old new = new @ ReplaceAll s old new"
  by (cases old) simp_all

lemma ReplaceAll_absent: "\<not> sublist old s \<Longrightarrow> ReplaceAll s old new = s"
proof (induction s)
  case Nil
  then show ?case by simp
next
  case (Cons c s)
  then have "\<not> prefix old (c # s)" by (auto dest: prefix_imp_sublist)
  moreover have "\<not> sublist old s" using Cons.prems by (auto simp: sublist_Cons_right)
  ultimately show ?case using Cons.IH by simp
qed

lemma ReplaceAll_first:
  assumes "old = p # P'" and "p \<notin> set P'" and "\<not> sublist old u"
  shows "ReplaceAll (u @ old @ v) old new = u @ new @ ReplaceAll v old new"
  using assms(3)
proof (induction u)
  case Nil
  then show ?case using assms(1) ReplaceAll_hit [of old v new] by simp
next
  case (Cons c u)
  have "\<not> prefix old ((c # u) @ old @ v)"
    unfolding assms(1) using assms(1,2) Cons.prems by (intro no_straddle) auto
  then have "ReplaceAll ((c # u) @ old @ v) old new = c # ReplaceAll (u @ old @ v) old new"
    using ReplaceAll_step [of old c "u @ old @ v" new] by simp
  moreover have "\<not> sublist old u"
    using Cons.prems by (auto simp: sublist_Cons_right)
  ultimately show ?case using Cons.IH by simp
qed

lemma ReplaceAll_join:
  assumes "old = p # P'" and "p \<notin> set P'" and "\<forall>s \<in> set segs. \<not> sublist old s"
  shows "ReplaceAll (join segs old) old new = join segs new"
  using assms(3)
proof (induction segs)
  case Nil
  then show ?case by simp
next
  case (Cons s ts)
  note clean = Cons.prems and hyp = Cons.IH
  show ?case
  proof (cases ts)
    case Nil
    then show ?thesis using clean by (simp add: ReplaceAll_absent)
  next
    case (Cons t ts')
    have "ReplaceAll (s @ old @ join ts old) old new = s @ new @ ReplaceAll (join ts old) old new"
      using assms(1,2) clean by (intro ReplaceAll_first) auto
    then show ?thesis using Cons hyp clean by simp
  qed
qed

subsection \<open>The loops over the first page\<close>

lemma range_Wishlist_map_of:
  "range_Wishlist trackID wishlist =
     (case map_of wishlist trackID of None \<Rightarrow> [] | Some item \<Rightarrow> [Println (ItemURL item)])"
  by (induction wishlist) auto

lemma range_Sequence_map_of:
  "range_Sequence ids wishlist =
     concat (map (\<lambda>trackID. case map_of wishlist trackID of
                               None \<Rightarrow> []
                             | Some item \<Rightarrow> [Println (ItemURL item)]) ids)"
  by (induction ids) (simp_all add: range_Wishlist_map_of)

lemma range_Sequence_no_cache: "range_Sequence ids [] = []"
  by (induction ids) simp_all

lemma length_range_Sequence:
  "length (range_Sequence ids wishlist) =
     length (filter (\<lambda>trackID. trackID \<in> fst ` set wishlist) ids)"
proof (induction ids)
  case Nil
  then show ?case by simp
next
  case (Cons trackID ids)
  show ?case
  proof (cases "map_of wishlist trackID")
    case None
    then have "trackID \<notin> fst ` set wishlist" by (simp add: map_of_eq_None_iff)
    with None Cons show ?thesis by (simp add: range_Wishlist_map_of)
  next
    case (Some item)
    then have "trackID \<in> fst ` set wishlist"
      by (metis map_of_eq_None_iff option.distinct(1))
    with Some Cons show ?thesis by (simp add: range_Wishlist_map_of)
  qed
qed

subsection \<open>One call of \<^verbatim>\<open>GetWishlist\<close>\<close>

lemma GetWishlist_transport:
  assumes "http_Post w api_url ''application/json''
             (json_Marshal w [(''fan_id'', fanID), (''older_than_token'', token)]) = Inl err"
  shows "GetWishlist w fanID token =
           ((APIItemsResponse_zero, Some err), [wishlist_request w fanID token])"
  using assms by (simp add: GetWishlist_def)

lemma GetWishlist_read:
  assumes "http_Post w api_url ''application/json''
             (json_Marshal w [(''fan_id'', fanID), (''older_than_token'', token)]) = Inr resp"
    and "Body resp = (body, Some err)"
  shows "GetWishlist w fanID token =
           ((APIItemsResponse_zero, Some err),
            [wishlist_request w fanID token, Println (Error err)])"
  using assms by (simp add: GetWishlist_def)

lemma GetWishlist_decode:
  assumes "http_Post w api_url ''application/json''
             (json_Marshal w [(''fan_id'', fanID), (''older_than_token'', token)]) = Inr resp"
    and "Body resp = (body, None)"
    and "Unmarshal_APIItemsResponse w body = (partly, Some err)"
  shows "GetWishlist w fanID token =
           ((APIItemsResponse_zero, Some err), [wishlist_request w fanID token])"
  using assms by (simp add: GetWishlist_def)

lemma GetWishlist_decoded:
  assumes "http_Post w api_url ''application/json''
             (json_Marshal w [(''fan_id'', fanID), (''older_than_token'', token)]) = Inr resp"
    and "Body resp = (body, None)"
    and "Unmarshal_APIItemsResponse w body = (response, None)"
  shows "GetWishlist w fanID token = ((response, None), [wishlist_request w fanID token])"
  using assms by (simp add: GetWishlist_def)

lemma GetWishlist_posts: "posts (snd (GetWishlist w fanID token)) =
   [(api_url, ''application/json'',
     json_Marshal w [(''fan_id'', fanID), (''older_than_token'', token)])]"
  by (simp add: GetWishlist_def Let_def split: sum.splits prod.splits option.splits)

subsection \<open>The branches of \<^verbatim>\<open>main\<close>\<close>

lemma main_get_failed:
  assumes "http_Get w page_url = Inl err"
  shows "main w = \<lparr>trace = [Get page_url, Println (Error err)], exit = Returned\<rparr>"
  using assms by (simp add: main_def)

lemma main_read_failed:
  assumes "http_Get w page_url = Inr resp" and "Body resp = (body, Some err)"
  shows "main w = \<lparr>trace = [Get page_url, Println (Error err)], exit = Returned\<rparr>"
  using assms by (simp add: main_def)

lemma main_no_match:
  assumes "http_Get w page_url = Inr resp" and "Body resp = (body, None)"
    and "FindStringSubmatch body = []"
  shows "main w = \<lparr>trace = [Get page_url], exit = Panic_index_out_of_range 1 0\<rparr>"
  using assms by (simp add: main_def)

lemma main_decode_failed:
  assumes "http_Get w page_url = Inr resp" and "Body resp = (body, None)"
    and "FindStringSubmatch body = [whole, blob]"
    and \<open>Unmarshal_DataBlob w (ReplaceAll blob ''&quot;'' ''"'') = (partly, Some err)\<close>
  shows "main w = \<lparr>trace = [Get page_url, Println (Error err)], exit = Returned\<rparr>"
  using assms by (simp add: main_def)

lemma main_decoded:
  assumes "http_Get w page_url = Inr resp" and "Body resp = (body, None)"
    and "FindStringSubmatch body = [whole, blob]"
    and \<open>Unmarshal_DataBlob w (ReplaceAll blob ''&quot;'' ''"'') = (datablob, None)\<close>
    and "GetWishlist w (Itoa (ID (FanData datablob)))
           (ItemData.LastToken (WishlistData datablob)) = ((nextPage, failure), effects)"
  shows "main w =
     \<lparr>trace = Get page_url #
        range_Sequence (Sequence (WishlistData datablob)) (Wishlist (ItemCache datablob)) @
        effects @
        (case failure of
           Some err \<Rightarrow> [Println (Error err)]
         | None \<Rightarrow> map (\<lambda>item. Println (ItemURL item)) (Items nextPage)),
      exit = Returned\<rparr>"
  using assms by (simp add: main_def Let_def split: option.splits)

lemma stdout_append: "stdout (xs @ ys) = stdout xs @ stdout ys"
  by (induction xs rule: stdout.induct) simp_all

lemma stdout_Println: "stdout (map (\<lambda>item. Println (f item)) xs) = map f xs"
  by (induction xs) simp_all

lemma range_Sequence_cong:
  "map_of wishlist = map_of wishlist' \<Longrightarrow> range_Sequence ids wishlist = range_Sequence ids wishlist'"
  by (simp add: range_Sequence_map_of)

subsection \<open>The example page\<close>

lemma demo_match:
  \<open>FindStringSubmatch demo_html =
     [''id="pagedata" data-blob="'' @ demo_escaped @ ''">'', demo_escaped]\<close>
  by (simp add: FindStringSubmatch_def match_at_def demo_html_def demo_escaped_def
      lit_id_def lit_blob_def lit_close_def line_feed_def)

lemma demo_unescape: \<open>ReplaceAll demo_escaped ''&quot;'' ''"'' = demo_json\<close>
  by (simp add: demo_escaped_def demo_json_def)

lemma demo_Get:
  "http_Get demo_world page_url = Inr \<lparr>StatusCode = 200, Body = (demo_html, None)\<rparr>"
  by (simp add: demo_world_def)

lemma demo_Unmarshal: "Unmarshal_DataBlob demo_world demo_json = (demo_blob, None)"
  by (simp add: demo_world_def)

lemma demo_Itoa: "Itoa (ID (FanData demo_blob)) = ''42''"
  by (simp add: demo_blob_def Itoa_def decimal.simps digit_def)

lemma demo_token: "ItemData.LastToken (WishlistData demo_blob) = ''t''"
  by (simp add: demo_blob_def)

lemma demo_request:
  \<open>json_Marshal demo_world [(''fan_id'', ''42''), (''older_than_token'', ''t'')] =
     ''{"fan_id":"42","older_than_token":"t"}''\<close>
  by (simp add: demo_world_def demo_Marshal_def)

lemma demo_printed:
  "range_Sequence (Sequence (WishlistData demo_blob)) (Wishlist (ItemCache demo_blob)) =
     [Println ''u1'', Println ''u2'']"
  by (simp add: demo_blob_def demo_item_def)

section \<open>The claims\<close>

subsection \<open>C1: join and print\<close>

text \<open>
  C1. For every sequence of identifiers and every wishlist cache, the two loops print one
  line for each identifier of the sequence that is a key of the cache, namely the URL of
  the item stored under it, and nothing for an identifier that is not a key; the lines come
  in the order of the sequence. The right-hand side reads the cache only through
  \<open>map_of\<close>, so the order in which the map is visited plays no part. The number of lines
  is the number of identifiers with a key, and an empty sequence or an empty cache prints
  nothing.
\<close>

theorem join_and_print:
  "range_Sequence ids wishlist =
     concat (map (\<lambda>trackID. case map_of wishlist trackID of
                               None \<Rightarrow> []
                             | Some item \<Rightarrow> [Println (ItemURL item)]) ids)
   \<and> length (range_Sequence ids wishlist) =
       length (filter (\<lambda>trackID. trackID \<in> fst ` set wishlist) ids)
   \<and> range_Sequence [] wishlist = []
   \<and> range_Sequence ids [] = []"
  using range_Sequence_map_of [of ids wishlist] length_range_Sequence [of ids wishlist]
    range_Sequence_no_cache [of ids]
  by simp

text \<open>The sequence \<open>a\<close>, \<open>x\<close>, \<open>b\<close> against a cache that holds \<open>b\<close> and \<open>a\<close>.\<close>

theorem join_and_print_example:
  "range_Sequence [''a'', ''x'', ''b''] [(''b'', demo_item ''u2''), (''a'', demo_item ''u1'')] =
     [Println ''u1'', Println ''u2'']
   \<and> length (range_Sequence [''a'', ''x'', ''b'']
               [(''b'', demo_item ''u2''), (''a'', demo_item ''u1'')]) = 2"
  using join_and_print
    [of "[''a'', ''x'', ''b'']" "[(''b'', demo_item ''u2''), (''a'', demo_item ''u1'')]"]
  by (simp add: demo_item_def)

subsection \<open>C2: a page without the blob\<close>

text \<open>
  C2 asks for a checked failure when the pattern is nowhere in the body. The program has
  none. A body without \<^verbatim>\<open>id="pagedata"\<close> gives no match; and for every body in which
  the expression matches nothing, \<^verbatim>\<open>FindStringSubmatch\<close> returns \<^verbatim>\<open>nil\<close>,
  \<^verbatim>\<open>datablobMatch[1]\<close> is an index out of range, and the run ends in a panic with
  nothing printed. Every other step of \<^verbatim>\<open>main\<close> checks its error and prints it.
\<close>

theorem missing_blob_panics:
  assumes "http_Get w page_url = Inr resp" and "Body resp = (body, None)"
  shows \<open>(\<not> sublist ''id="pagedata"'' body \<longrightarrow> FindStringSubmatch body = [])
         \<and> (FindStringSubmatch body = [] \<longrightarrow>
            main w = \<lparr>trace = [Get page_url], exit = Panic_index_out_of_range 1 0\<rparr>)\<close>
proof (intro conjI impI)
  assume \<open>\<not> sublist ''id="pagedata"'' body\<close>
  then have "leftmost body = None"
    using leftmost_none [of body] by (simp add: lit_id_def)
  then show "FindStringSubmatch body = []"
    by (simp add: FindStringSubmatch_def)
next
  assume "FindStringSubmatch body = []"
  with assms show "main w = \<lparr>trace = [Get page_url], exit = Panic_index_out_of_range 1 0\<rparr>"
    by (rule main_no_match)
qed

text \<open>A page with no \<^verbatim>\<open>id="pagedata"\<close> in it.\<close>

theorem missing_blob_panics_example:
  "main (demo_world\<lparr>http_Get :=
           \<lambda>url. Inr \<lparr>StatusCode = 200, Body = (''<html></html>'', None)\<rparr>\<rparr>) =
     \<lparr>trace = [Get page_url], exit = Panic_index_out_of_range 1 0\<rparr>"
  using missing_blob_panics
    [where w = "demo_world\<lparr>http_Get :=
                  \<lambda>url. Inr \<lparr>StatusCode = 200, Body = (''<html></html>'', None)\<rparr>\<rparr>"
      and resp = "\<lparr>StatusCode = 200, Body = (''<html></html>'', None)\<rparr>"
      and body = "''<html></html>''"]
  by (simp add: sublist_Cons_right)

subsection \<open>C3: extraction and unescaping\<close>

text \<open>
  C3, as the claim states it, fails on a page whose attribute value holds a line feed:
  \<^verbatim>\<open>.\<close> does not match it, so nothing matches at all, although the text between the
  opening quote and the next \<^verbatim>\<open>">\<close> is there.
\<close>

theorem line_feed_in_blob_not_extracted:
  \<open>FindStringSubmatch (''<div id="pagedata" data-blob="{'' @ [CHR 0x0A] @ ''}"></div>'') = []\<close>
  by (simp add: FindStringSubmatch_def match_at_def lit_id_def lit_blob_def lit_close_def
      line_feed_def)

text \<open>
  C3, amended. Take a body in which the first \<^verbatim>\<open>id="pagedata"\<close> is followed by
  \<open>between\<close>, the first \<^verbatim>\<open>data-blob="\<close> after it, the text \<open>blob\<close> and the first
  \<^verbatim>\<open>">\<close> after the opening quote. If neither \<open>between\<close> nor \<open>blob\<close> holds a line feed,
  the match is that stretch of the body and its group is exactly \<open>blob\<close>. Unescaping
  turns every \<^verbatim>\<open>&quot;\<close> into a double quote and leaves every other character, so every
  other entity, as it is: a text cut into pieces at its occurrences of \<^verbatim>\<open>&quot;\<close> comes
  back as the same pieces with double quotes between them.
\<close>

theorem extract_and_unescape:
  assumes \<open>\<not> sublist ''id="pagedata"'' pre\<close>
    and \<open>\<not> sublist ''data-blob="'' between\<close> and "CHR 0x0A \<notin> set between"
    and \<open>\<not> sublist ''">'' blob\<close> and "CHR 0x0A \<notin> set blob"
    and \<open>\<forall>s \<in> set segs. \<not> sublist ''&quot;'' s\<close>
  shows \<open>FindStringSubmatch
           (pre @ ''id="pagedata"'' @ between @ ''data-blob="'' @ blob @ ''">'' @ post) =
           [''id="pagedata"'' @ between @ ''data-blob="'' @ blob @ ''">'', blob]
         \<and> ReplaceAll (join segs ''&quot;'') ''&quot;'' ''"'' = join segs ''"''\<close>
proof
  show \<open>FindStringSubmatch
           (pre @ ''id="pagedata"'' @ between @ ''data-blob="'' @ blob @ ''">'' @ post) =
           [''id="pagedata"'' @ between @ ''data-blob="'' @ blob @ ''">'', blob]\<close>
    using assms(1-5) FindStringSubmatch_found [of pre between blob post]
    unfolding lit_id_def lit_blob_def lit_close_def line_feed_def by simp
  show \<open>ReplaceAll (join segs ''&quot;'') ''&quot;'' ''"'' = join segs ''"''\<close>
    using assms(6) ReplaceAll_join [of "''&quot;''" "CHR ''&''" "''quot;''" segs] by simp
qed

theorem extract_and_unescape_example:
  \<open>FindStringSubmatch ''<div id="pagedata" data-blob="{&quot;a&quot;:&amp;}"></div>'' =
     [''id="pagedata" data-blob="{&quot;a&quot;:&amp;}">'', ''{&quot;a&quot;:&amp;}'']
   \<and> ReplaceAll ''{&quot;a&quot;:&amp;}'' ''&quot;'' ''"'' = ''{"a":&amp;}''\<close>
  using extract_and_unescape [of "''<div ''" "'' ''" \<open>''{&quot;a&quot;:&amp;}''\<close>
      "[''{'', ''a'', '':&amp;}'']" "''</div>''"]
  by (simp add: sublist_Cons_right)

subsection \<open>C4: the request and the results of \<^verbatim>\<open>GetWishlist\<close>\<close>

text \<open>
  C4. For every fan identifier and cursor, \<^verbatim>\<open>GetWishlist\<close> sends exactly one POST: to the
  API address, with content type \<^verbatim>\<open>application/json\<close>, and with the JSON encoding of the
  map that has the two keys \<^verbatim>\<open>fan_id\<close> and \<^verbatim>\<open>older_than_token\<close> as its body. It returns
  the error of a failed transport, of a failed read of the body and of a failed decoding of
  the body; when all three succeed it returns the decoded value and no error.
\<close>

theorem GetWishlist_contract:
  "posts (snd (GetWishlist w fanID token)) =
     [(api_url, ''application/json'',
       json_Marshal w [(''fan_id'', fanID), (''older_than_token'', token)])]
   \<and> (http_Post w api_url ''application/json''
         (json_Marshal w [(''fan_id'', fanID), (''older_than_token'', token)]) = Inl err \<longrightarrow>
       fst (GetWishlist w fanID token) = (APIItemsResponse_zero, Some err))
   \<and> (http_Post w api_url ''application/json''
         (json_Marshal w [(''fan_id'', fanID), (''older_than_token'', token)]) = Inr resp \<longrightarrow>
       (Body resp = (body, Some err) \<longrightarrow>
          fst (GetWishlist w fanID token) = (APIItemsResponse_zero, Some err))
       \<and> (Body resp = (body, None) \<longrightarrow>
          (Unmarshal_APIItemsResponse w body = (partly, Some err) \<longrightarrow>
             fst (GetWishlist w fanID token) = (APIItemsResponse_zero, Some err))
          \<and> (Unmarshal_APIItemsResponse w body = (response, None) \<longrightarrow>
             fst (GetWishlist w fanID token) = (response, None))))"
  by (simp add: GetWishlist_posts GetWishlist_transport GetWishlist_read
      GetWishlist_decode GetWishlist_decoded)

text \<open>The request of the example, and one answer of each kind.\<close>

theorem GetWishlist_contract_example:
  \<open>posts (snd (GetWishlist demo_world ''42'' ''t'')) =
     [(api_url, ''application/json'', ''{"fan_id":"42","older_than_token":"t"}'')]
   \<and> fst (GetWishlist demo_world ''42'' ''t'') = (demo_next, None)
   \<and> fst (GetWishlist (demo_world\<lparr>http_Post := \<lambda>url ct body. Inl (Err ''connection refused'')\<rparr>)
            ''42'' ''t'') = (APIItemsResponse_zero, Some (Err ''connection refused''))
   \<and> fst (GetWishlist
            (demo_world\<lparr>http_Post := \<lambda>url ct body.
               Inr \<lparr>StatusCode = 200, Body = (''{"track_'', Some (Err ''unexpected EOF''))\<rparr>\<rparr>)
            ''42'' ''t'') = (APIItemsResponse_zero, Some (Err ''unexpected EOF''))
   \<and> fst (GetWishlist
            (demo_world\<lparr>http_Post := \<lambda>url ct body.
               Inr \<lparr>StatusCode = 200, Body = (''<html>'', None)\<rparr>\<rparr>)
            ''42'' ''t'') =
         (APIItemsResponse_zero, Some (Err ''unexpected end of JSON input''))\<close>
proof -
  have ok: \<open>posts (snd (GetWishlist demo_world ''42'' ''t'')) =
       [(api_url, ''application/json'', ''{"fan_id":"42","older_than_token":"t"}'')]
     \<and> fst (GetWishlist demo_world ''42'' ''t'') = (demo_next, None)\<close>
    using GetWishlist_contract [where w = demo_world and fanID = "''42''" and token = "''t''"
        and resp = "\<lparr>StatusCode = 200, Body = (demo_api_json, None)\<rparr>"
        and body = demo_api_json and response = demo_next]
    by (simp add: demo_request) (simp add: demo_world_def)
  have transport: \<open>fst (GetWishlist
        (demo_world\<lparr>http_Post := \<lambda>url ct body. Inl (Err ''connection refused'')\<rparr>)
        ''42'' ''t'') = (APIItemsResponse_zero, Some (Err ''connection refused''))\<close>
    using GetWishlist_contract
      [where w = "demo_world\<lparr>http_Post := \<lambda>url ct body. Inl (Err ''connection refused'')\<rparr>"
        and fanID = "''42''" and token = "''t''" and err = "Err ''connection refused''"]
    by simp
  have reading: \<open>fst (GetWishlist
        (demo_world\<lparr>http_Post := \<lambda>url ct body.
           Inr \<lparr>StatusCode = 200, Body = (''{"track_'', Some (Err ''unexpected EOF''))\<rparr>\<rparr>)
        ''42'' ''t'') = (APIItemsResponse_zero, Some (Err ''unexpected EOF''))\<close>
    using GetWishlist_contract
      [where w = \<open>demo_world\<lparr>http_Post := \<lambda>url ct body.
           Inr \<lparr>StatusCode = 200, Body = (''{"track_'', Some (Err ''unexpected EOF''))\<rparr>\<rparr>\<close>
        and fanID = "''42''" and token = "''t''" and err = "Err ''unexpected EOF''"
        and resp = \<open>\<lparr>StatusCode = 200, Body = (''{"track_'', Some (Err ''unexpected EOF''))\<rparr>\<close>
        and body = \<open>''{"track_''\<close>]
    by simp
  have decoding: \<open>fst (GetWishlist
        (demo_world\<lparr>http_Post := \<lambda>url ct body.
           Inr \<lparr>StatusCode = 200, Body = (''<html>'', None)\<rparr>\<rparr>)
        ''42'' ''t'') = (APIItemsResponse_zero, Some (Err ''unexpected end of JSON input''))\<close>
    using GetWishlist_contract
      [where w = \<open>demo_world\<lparr>http_Post := \<lambda>url ct body.
           Inr \<lparr>StatusCode = 200, Body = (''<html>'', None)\<rparr>\<rparr>\<close>
        and fanID = "''42''" and token = "''t''"
        and err = "Err ''unexpected end of JSON input''"
        and resp = \<open>\<lparr>StatusCode = 200, Body = (''<html>'', None)\<rparr>\<close>
        and body = \<open>''<html>''\<close> and partly = APIItemsResponse_zero]
    by (simp add: demo_world_def demo_api_json_def)
  from ok transport reading decoding show ?thesis by simp
qed

subsection \<open>C5: a failed step ends the run\<close>

text \<open>
  C5. Whichever step fails (fetching the page, reading its body, decoding the blob, or,
  in the call for the next page, the transport, the read of the body or the decoding),
  the run consists of what was printed before that step, the request if one was sent, and
  the message of the error on standard output; nothing follows the message, and
  \<^verbatim>\<open>main\<close> returns, so the exit status is 0. When reading the body of the API's answer
  fails, the message is printed twice, once by \<^verbatim>\<open>GetWishlist\<close> and once by \<^verbatim>\<open>main\<close>.
\<close>

theorem failure_aborts_run:
  \<open>(http_Get w page_url = Inl err \<longrightarrow>
      main w = \<lparr>trace = [Get page_url, Println (Error err)], exit = Returned\<rparr>)
   \<and> (http_Get w page_url = Inr resp \<longrightarrow>
      (Body resp = (body, Some err) \<longrightarrow>
         main w = \<lparr>trace = [Get page_url, Println (Error err)], exit = Returned\<rparr>)
      \<and> (Body resp = (body, None) \<and> FindStringSubmatch body = [whole, blob] \<longrightarrow>
         (Unmarshal_DataBlob w (ReplaceAll blob ''&quot;'' ''"'') = (partly, Some err) \<longrightarrow>
            main w = \<lparr>trace = [Get page_url, Println (Error err)], exit = Returned\<rparr>)
         \<and> (Unmarshal_DataBlob w (ReplaceAll blob ''&quot;'' ''"'') = (datablob, None) \<longrightarrow>
            (http_Post w api_url ''application/json''
               (json_Marshal w [(''fan_id'', Itoa (ID (FanData datablob))),
                  (''older_than_token'', ItemData.LastToken (WishlistData datablob))]) = Inl err \<longrightarrow>
               main w =
                 \<lparr>trace = Get page_url #
                    range_Sequence (Sequence (WishlistData datablob))
                      (Wishlist (ItemCache datablob)) @
                    [wishlist_request w (Itoa (ID (FanData datablob)))
                       (ItemData.LastToken (WishlistData datablob)),
                     Println (Error err)],
                  exit = Returned\<rparr>)
            \<and> (http_Post w api_url ''application/json''
               (json_Marshal w [(''fan_id'', Itoa (ID (FanData datablob))),
                  (''older_than_token'', ItemData.LastToken (WishlistData datablob))]) = Inr answer \<longrightarrow>
               (Body answer = (reply, Some err) \<longrightarrow>
                  main w =
                    \<lparr>trace = Get page_url #
                       range_Sequence (Sequence (WishlistData datablob))
                         (Wishlist (ItemCache datablob)) @
                       [wishlist_request w (Itoa (ID (FanData datablob)))
                          (ItemData.LastToken (WishlistData datablob)),
                        Println (Error err), Println (Error err)],
                     exit = Returned\<rparr>)
               \<and> (Body answer = (reply, None) \<and>
                   Unmarshal_APIItemsResponse w reply = (half, Some err) \<longrightarrow>
                  main w =
                    \<lparr>trace = Get page_url #
                       range_Sequence (Sequence (WishlistData datablob))
                         (Wishlist (ItemCache datablob)) @
                       [wishlist_request w (Itoa (ID (FanData datablob)))
                          (ItemData.LastToken (WishlistData datablob)),
                        Println (Error err)],
                     exit = Returned\<rparr>)))))\<close>
proof (intro conjI impI; (elim conjE)?)
  assume "http_Get w page_url = Inl err"
  then show "main w = \<lparr>trace = [Get page_url, Println (Error err)], exit = Returned\<rparr>"
    by (rule main_get_failed)
next
  assume "http_Get w page_url = Inr resp" and "Body resp = (body, Some err)"
  then show "main w = \<lparr>trace = [Get page_url, Println (Error err)], exit = Returned\<rparr>"
    by (rule main_read_failed)
next
  assume "http_Get w page_url = Inr resp" and "Body resp = (body, None)"
    and "FindStringSubmatch body = [whole, blob]"
    and \<open>Unmarshal_DataBlob w (ReplaceAll blob ''&quot;'' ''"'') = (partly, Some err)\<close>
  then show "main w = \<lparr>trace = [Get page_url, Println (Error err)], exit = Returned\<rparr>"
    by (rule main_decode_failed)
next
  assume page: "http_Get w page_url = Inr resp" "Body resp = (body, None)"
    "FindStringSubmatch body = [whole, blob]"
    \<open>Unmarshal_DataBlob w (ReplaceAll blob ''&quot;'' ''"'') = (datablob, None)\<close>
  assume "http_Post w api_url ''application/json''
            (json_Marshal w [(''fan_id'', Itoa (ID (FanData datablob))),
               (''older_than_token'', ItemData.LastToken (WishlistData datablob))]) = Inl err"
  then show "main w =
      \<lparr>trace = Get page_url #
         range_Sequence (Sequence (WishlistData datablob)) (Wishlist (ItemCache datablob)) @
         [wishlist_request w (Itoa (ID (FanData datablob)))
            (ItemData.LastToken (WishlistData datablob)),
          Println (Error err)],
       exit = Returned\<rparr>"
    using main_decoded [OF page GetWishlist_transport] by simp
next
  assume page: "http_Get w page_url = Inr resp" "Body resp = (body, None)"
    "FindStringSubmatch body = [whole, blob]"
    \<open>Unmarshal_DataBlob w (ReplaceAll blob ''&quot;'' ''"'') = (datablob, None)\<close>
  assume "http_Post w api_url ''application/json''
            (json_Marshal w [(''fan_id'', Itoa (ID (FanData datablob))),
               (''older_than_token'', ItemData.LastToken (WishlistData datablob))]) = Inr answer"
    and "Body answer = (reply, Some err)"
  then show "main w =
      \<lparr>trace = Get page_url #
         range_Sequence (Sequence (WishlistData datablob)) (Wishlist (ItemCache datablob)) @
         [wishlist_request w (Itoa (ID (FanData datablob)))
            (ItemData.LastToken (WishlistData datablob)),
          Println (Error err), Println (Error err)],
       exit = Returned\<rparr>"
    using main_decoded [OF page GetWishlist_read] by simp
next
  assume page: "http_Get w page_url = Inr resp" "Body resp = (body, None)"
    "FindStringSubmatch body = [whole, blob]"
    \<open>Unmarshal_DataBlob w (ReplaceAll blob ''&quot;'' ''"'') = (datablob, None)\<close>
  assume "http_Post w api_url ''application/json''
            (json_Marshal w [(''fan_id'', Itoa (ID (FanData datablob))),
               (''older_than_token'', ItemData.LastToken (WishlistData datablob))]) = Inr answer"
    and "Body answer = (reply, None)"
    and "Unmarshal_APIItemsResponse w reply = (half, Some err)"
  then show "main w =
      \<lparr>trace = Get page_url #
         range_Sequence (Sequence (WishlistData datablob)) (Wishlist (ItemCache datablob)) @
         [wishlist_request w (Itoa (ID (FanData datablob)))
            (ItemData.LastToken (WishlistData datablob)),
          Println (Error err)],
       exit = Returned\<rparr>"
    using main_decoded [OF page GetWishlist_decode] by simp
qed

text \<open>One run of the example for each of the six failures.\<close>

theorem failure_aborts_run_example:
  \<open>main (demo_world\<lparr>http_Get := \<lambda>url. Inl (Err ''no such host'')\<rparr>) =
     \<lparr>trace = [Get page_url, Println ''no such host''], exit = Returned\<rparr>
   \<and> main (demo_world\<lparr>http_Get := \<lambda>url.
            Inr \<lparr>StatusCode = 200, Body = (''<html>'', Some (Err ''unexpected EOF''))\<rparr>\<rparr>) =
     \<lparr>trace = [Get page_url, Println ''unexpected EOF''], exit = Returned\<rparr>
   \<and> main (demo_world\<lparr>Unmarshal_DataBlob := \<lambda>pagedata.
            (DataBlob_zero, Some (Err ''cannot unmarshal string into Go value''))\<rparr>) =
     \<lparr>trace = [Get page_url, Println ''cannot unmarshal string into Go value''],
      exit = Returned\<rparr>
   \<and> main (demo_world\<lparr>http_Post := \<lambda>url ct body. Inl (Err ''connection refused'')\<rparr>) =
     \<lparr>trace = [Get page_url, Println ''u1'', Println ''u2'',
               Post api_url ''application/json'' ''{"fan_id":"42","older_than_token":"t"}'',
               Println ''connection refused''],
      exit = Returned\<rparr>
   \<and> main (demo_world\<lparr>http_Post := \<lambda>url ct body.
            Inr \<lparr>StatusCode = 200, Body = (''{"track_'', Some (Err ''unexpected EOF''))\<rparr>\<rparr>) =
     \<lparr>trace = [Get page_url, Println ''u1'', Println ''u2'',
               Post api_url ''application/json'' ''{"fan_id":"42","older_than_token":"t"}'',
               Println ''unexpected EOF'', Println ''unexpected EOF''],
      exit = Returned\<rparr>
   \<and> main (demo_world\<lparr>Unmarshal_APIItemsResponse := \<lambda>reply.
            (demo_next, Some (Err ''invalid character''))\<rparr>) =
     \<lparr>trace = [Get page_url, Println ''u1'', Println ''u2'',
               Post api_url ''application/json'' ''{"fan_id":"42","older_than_token":"t"}'',
               Println ''invalid character''],
      exit = Returned\<rparr>\<close>
proof -
  have fetch: \<open>main (demo_world\<lparr>http_Get := \<lambda>url. Inl (Err ''no such host'')\<rparr>) =
     \<lparr>trace = [Get page_url, Println ''no such host''], exit = Returned\<rparr>\<close>
    using failure_aborts_run
      [where w = "demo_world\<lparr>http_Get := \<lambda>url. Inl (Err ''no such host'')\<rparr>"
        and err = "Err ''no such host''"]
    by simp
  have reading: \<open>main (demo_world\<lparr>http_Get := \<lambda>url.
            Inr \<lparr>StatusCode = 200, Body = (''<html>'', Some (Err ''unexpected EOF''))\<rparr>\<rparr>) =
     \<lparr>trace = [Get page_url, Println ''unexpected EOF''], exit = Returned\<rparr>\<close>
    using failure_aborts_run
      [where w = "demo_world\<lparr>http_Get := \<lambda>url.
            Inr \<lparr>StatusCode = 200, Body = (''<html>'', Some (Err ''unexpected EOF''))\<rparr>\<rparr>"
        and err = "Err ''unexpected EOF''" and body = "''<html>''"
        and resp = "\<lparr>StatusCode = 200, Body = (''<html>'', Some (Err ''unexpected EOF''))\<rparr>"]
    by simp
  have decoding: \<open>main (demo_world\<lparr>Unmarshal_DataBlob := \<lambda>pagedata.
            (DataBlob_zero, Some (Err ''cannot unmarshal string into Go value''))\<rparr>) =
     \<lparr>trace = [Get page_url, Println ''cannot unmarshal string into Go value''],
      exit = Returned\<rparr>\<close>
    using failure_aborts_run
      [where w = "demo_world\<lparr>Unmarshal_DataBlob := \<lambda>pagedata.
            (DataBlob_zero, Some (Err ''cannot unmarshal string into Go value''))\<rparr>"
        and err = "Err ''cannot unmarshal string into Go value''"
        and resp = "\<lparr>StatusCode = 200, Body = (demo_html, None)\<rparr>" and body = demo_html
        and whole = \<open>''id="pagedata" data-blob="'' @ demo_escaped @ ''">''\<close>
        and blob = demo_escaped and partly = DataBlob_zero]
    by (simp add: demo_Get demo_match)
  have transport: \<open>main (demo_world\<lparr>http_Post := \<lambda>url ct body. Inl (Err ''connection refused'')\<rparr>) =
     \<lparr>trace = [Get page_url, Println ''u1'', Println ''u2'',
               Post api_url ''application/json'' ''{"fan_id":"42","older_than_token":"t"}'',
               Println ''connection refused''],
      exit = Returned\<rparr>\<close>
    using failure_aborts_run
      [where w = "demo_world\<lparr>http_Post := \<lambda>url ct body. Inl (Err ''connection refused'')\<rparr>"
        and err = "Err ''connection refused''"
        and resp = "\<lparr>StatusCode = 200, Body = (demo_html, None)\<rparr>" and body = demo_html
        and whole = \<open>''id="pagedata" data-blob="'' @ demo_escaped @ ''">''\<close>
        and blob = demo_escaped and datablob = demo_blob]
    by (simp add: demo_Get demo_match demo_unescape demo_Unmarshal demo_Itoa demo_token
        demo_request demo_printed)
  have api_reading: \<open>main (demo_world\<lparr>http_Post := \<lambda>url ct body.
            Inr \<lparr>StatusCode = 200, Body = (''{"track_'', Some (Err ''unexpected EOF''))\<rparr>\<rparr>) =
     \<lparr>trace = [Get page_url, Println ''u1'', Println ''u2'',
               Post api_url ''application/json'' ''{"fan_id":"42","older_than_token":"t"}'',
               Println ''unexpected EOF'', Println ''unexpected EOF''],
      exit = Returned\<rparr>\<close>
    using failure_aborts_run
      [where w = \<open>demo_world\<lparr>http_Post := \<lambda>url ct body.
            Inr \<lparr>StatusCode = 200, Body = (''{"track_'', Some (Err ''unexpected EOF''))\<rparr>\<rparr>\<close>
        and err = "Err ''unexpected EOF''"
        and resp = "\<lparr>StatusCode = 200, Body = (demo_html, None)\<rparr>" and body = demo_html
        and whole = \<open>''id="pagedata" data-blob="'' @ demo_escaped @ ''">''\<close>
        and blob = demo_escaped and datablob = demo_blob
        and answer = \<open>\<lparr>StatusCode = 200, Body = (''{"track_'', Some (Err ''unexpected EOF''))\<rparr>\<close>
        and reply = \<open>''{"track_''\<close>]
    by (simp add: demo_Get demo_match demo_unescape demo_Unmarshal demo_Itoa demo_token
        demo_request demo_printed)
  have api_decoding: \<open>main (demo_world\<lparr>Unmarshal_APIItemsResponse := \<lambda>reply.
            (demo_next, Some (Err ''invalid character''))\<rparr>) =
     \<lparr>trace = [Get page_url, Println ''u1'', Println ''u2'',
               Post api_url ''application/json'' ''{"fan_id":"42","older_than_token":"t"}'',
               Println ''invalid character''],
      exit = Returned\<rparr>\<close>
    using failure_aborts_run
      [where w = \<open>demo_world\<lparr>Unmarshal_APIItemsResponse := \<lambda>reply.
            (demo_next, Some (Err ''invalid character''))\<rparr>\<close>
        and err = "Err ''invalid character''"
        and resp = "\<lparr>StatusCode = 200, Body = (demo_html, None)\<rparr>" and body = demo_html
        and whole = \<open>''id="pagedata" data-blob="'' @ demo_escaped @ ''">''\<close>
        and blob = demo_escaped and datablob = demo_blob
        and answer = \<open>\<lparr>StatusCode = 200, Body = (demo_api_json, None)\<rparr>\<close>
        and reply = demo_api_json and half = demo_next]
    by (simp add: demo_Get demo_match demo_unescape demo_Unmarshal demo_Itoa demo_token
        demo_request demo_printed) (simp add: demo_world_def)
  from fetch reading decoding transport api_reading api_decoding show ?thesis
    by (intro conjI)
qed

subsection \<open>C7: every item of the next page is printed\<close>

text \<open>
  C7. Whenever the page decodes and the API's answer decodes to \<open>response\<close>,
  \<^verbatim>\<open>GetWishlist\<close> returns \<open>response\<close> whole, and \<^verbatim>\<open>main\<close> prints, after the lines of the
  first page, the URL of every item of \<open>response\<close> in order. This holds for every
  \<open>response\<close>, so for both values of \<^verbatim>\<open>more_available\<close>: the flag is not read.
\<close>

theorem all_items_printed:
  assumes "http_Get w page_url = Inr resp" and "Body resp = (body, None)"
    and "FindStringSubmatch body = [whole, blob]"
    and \<open>Unmarshal_DataBlob w (ReplaceAll blob ''&quot;'' ''"'') = (datablob, None)\<close>
    and "http_Post w api_url ''application/json''
           (json_Marshal w [(''fan_id'', Itoa (ID (FanData datablob))),
              (''older_than_token'', ItemData.LastToken (WishlistData datablob))]) = Inr answer"
    and "Body answer = (reply, None)"
    and "Unmarshal_APIItemsResponse w reply = (response, None)"
  shows "fst (GetWishlist w (Itoa (ID (FanData datablob)))
                (ItemData.LastToken (WishlistData datablob))) = (response, None)
         \<and> stdout (trace (main w)) =
             stdout (range_Sequence (Sequence (WishlistData datablob))
                       (Wishlist (ItemCache datablob))) @
             map ItemURL (Items response)
         \<and> exit (main w) = Returned"
proof -
  have call: "GetWishlist w (Itoa (ID (FanData datablob)))
      (ItemData.LastToken (WishlistData datablob)) =
      ((response, None),
       [wishlist_request w (Itoa (ID (FanData datablob)))
          (ItemData.LastToken (WishlistData datablob))])"
    using assms(5-7) by (rule GetWishlist_decoded)
  show ?thesis
    using main_decoded [OF assms(1-4) call]
    by (simp add: call stdout_append stdout_Println)
qed

text \<open>The example answers \<^verbatim>\<open>more_available\<close> false with one item, which is printed.\<close>

theorem all_items_printed_example:
  "fst (GetWishlist demo_world ''42'' ''t'') =
     (\<lparr>Items = [demo_item ''u3''], MoreAvailable = False,
       APIItemsResponse.LastToken = ''t2''\<rparr>, None)
   \<and> stdout (trace (main demo_world)) = [''u1'', ''u2'', ''u3'']
   \<and> exit (main demo_world) = Returned"
  using all_items_printed
    [where w = demo_world
      and resp = "\<lparr>StatusCode = 200, Body = (demo_html, None)\<rparr>" and body = demo_html
      and whole = \<open>''id="pagedata" data-blob="'' @ demo_escaped @ ''">''\<close>
      and blob = demo_escaped and datablob = demo_blob
      and answer = "\<lparr>StatusCode = 200, Body = (demo_api_json, None)\<rparr>"
      and reply = demo_api_json and response = demo_next]
  by (simp add: demo_Get demo_match demo_unescape demo_Unmarshal demo_Itoa demo_token
      demo_printed) (simp add: demo_world_def demo_next_def demo_item_def)

subsection \<open>C8: an error comes with the zero value\<close>

text \<open>
  C8. Whenever \<^verbatim>\<open>GetWishlist\<close> returns an error, the value it returns with it is the zero
  value: no items, \<^verbatim>\<open>MoreAvailable\<close> false, an empty \<^verbatim>\<open>LastToken\<close>, whatever the decoder
  had already written into the variable.
\<close>

theorem error_comes_with_zero_value:
  assumes "snd (fst (GetWishlist w fanID token)) \<noteq> None"
  shows "fst (fst (GetWishlist w fanID token)) =
           \<lparr>Items = [], MoreAvailable = False, APIItemsResponse.LastToken = []\<rparr>"
  using assms
  by (simp add: GetWishlist_def Let_def APIItemsResponse_zero_def
      split: sum.splits prod.splits option.splits)

text \<open>A decoder that fails after filling the variable.\<close>

theorem error_comes_with_zero_value_example:
  "GetWishlist (demo_world\<lparr>Unmarshal_APIItemsResponse := \<lambda>reply.
       (demo_next, Some (Err ''invalid character''))\<rparr>) ''42'' ''t'' =
     ((\<lparr>Items = [], MoreAvailable = False, APIItemsResponse.LastToken = []\<rparr>,
       Some (Err ''invalid character'')),
      [wishlist_request demo_world ''42'' ''t''])"
proof -
  have "GetWishlist (demo_world\<lparr>Unmarshal_APIItemsResponse := \<lambda>reply.
       (demo_next, Some (Err ''invalid character''))\<rparr>) ''42'' ''t'' =
     ((APIItemsResponse_zero, Some (Err ''invalid character'')),
      [wishlist_request demo_world ''42'' ''t''])"
    by (simp add: GetWishlist_def demo_world_def)
  then show ?thesis
    using error_comes_with_zero_value
      [of "demo_world\<lparr>Unmarshal_APIItemsResponse := \<lambda>reply.
         (demo_next, Some (Err ''invalid character''))\<rparr>" "''42''" "''t''"]
    by (simp add: prod_eq_iff)
qed

subsection \<open>C9: the fields of the blob that are not read\<close>

text \<open>
  C9. Two blobs whose wishlist caches hold the same entries, whose wishlist data have the
  same sequence and the same last token, and whose fan identifiers are equal, give the same
  run (the same lines printed and the same request sent) in the same world. The track
  list, the collection cache, the collection data and the pending sequences are not among
  the hypotheses, and neither is the order of the entries of the wishlist cache.
\<close>

theorem unused_blob_fields:
  assumes "map_of (Wishlist (ItemCache b1)) = map_of (Wishlist (ItemCache b2))"
    and "Sequence (WishlistData b1) = Sequence (WishlistData b2)"
    and "ItemData.LastToken (WishlistData b1) = ItemData.LastToken (WishlistData b2)"
    and "ID (FanData b1) = ID (FanData b2)"
  shows "main (w\<lparr>Unmarshal_DataBlob := \<lambda>pagedata. (b1, failure)\<rparr>) =
         main (w\<lparr>Unmarshal_DataBlob := \<lambda>pagedata. (b2, failure)\<rparr>)"
proof -
  have call: "GetWishlist (w\<lparr>Unmarshal_DataBlob := u\<rparr>) f t = GetWishlist w f t" for u f t
    by (simp add: GetWishlist_def Let_def split: sum.splits prod.splits option.splits)
  show ?thesis
    using assms range_Sequence_cong [OF assms(1), of "Sequence (WishlistData b2)"]
    by (simp add: main_def call Let_def split: sum.splits prod.splits option.splits)
qed

text \<open>The two blobs of the example.\<close>

theorem unused_blob_fields_example:
  "main (demo_world\<lparr>Unmarshal_DataBlob := \<lambda>pagedata. (demo_blob, None)\<rparr>) =
   main (demo_world\<lparr>Unmarshal_DataBlob := \<lambda>pagedata. (demo_blob_other, None)\<rparr>)"
proof -
  have "map_of (Wishlist (ItemCache demo_blob)) = map_of (Wishlist (ItemCache demo_blob_other))"
    by (auto simp: demo_blob_def demo_blob_other_def fun_eq_iff)
  then show ?thesis
    by (intro unused_blob_fields) (simp_all add: demo_blob_def demo_blob_other_def)
qed

subsection \<open>C10: the status code is not read\<close>

text \<open>
  C10. Changing the status code of the API's answer changes nothing in what
  \<^verbatim>\<open>GetWishlist\<close> returns or does; and whatever the status code, an answer whose body is
  read and decodes to \<open>response\<close> makes \<^verbatim>\<open>GetWishlist\<close> return \<open>response\<close> and no error.
\<close>

theorem status_code_ignored:
  "GetWishlist
     (w\<lparr>http_Post := \<lambda>url ct body.
          map_sum id (\<lambda>resp. resp\<lparr>StatusCode := code\<rparr>) (http_Post w url ct body)\<rparr>)
     fanID token = GetWishlist w fanID token
   \<and> (http_Post w api_url ''application/json''
         (json_Marshal w [(''fan_id'', fanID), (''older_than_token'', token)]) =
         Inr \<lparr>StatusCode = code, Body = (body, None)\<rparr> \<and>
       Unmarshal_APIItemsResponse w body = (response, None) \<longrightarrow>
       fst (GetWishlist w fanID token) = (response, None))"
proof (intro conjI impI; (elim conjE)?)
  show "GetWishlist
     (w\<lparr>http_Post := \<lambda>url ct body.
          map_sum id (\<lambda>resp. resp\<lparr>StatusCode := code\<rparr>) (http_Post w url ct body)\<rparr>)
     fanID token = GetWishlist w fanID token"
    by (simp add: GetWishlist_def Let_def map_sum_def split: sum.splits prod.splits option.splits)
next
  assume "http_Post w api_url ''application/json''
         (json_Marshal w [(''fan_id'', fanID), (''older_than_token'', token)]) =
         Inr \<lparr>StatusCode = code, Body = (body, None)\<rparr>"
    and "Unmarshal_APIItemsResponse w body = (response, None)"
  then show "fst (GetWishlist w fanID token) = (response, None)"
    by (simp add: GetWishlist_def)
qed

text \<open>Status 404 and status 500 with a body that decodes.\<close>

theorem status_code_ignored_example:
  "fst (GetWishlist
     (demo_world\<lparr>http_Post := \<lambda>url ct body.
        Inr \<lparr>StatusCode = 404, Body = (demo_api_json, None)\<rparr>\<rparr>) ''42'' ''t'') = (demo_next, None)
   \<and> fst (GetWishlist
     (demo_world\<lparr>http_Post := \<lambda>url ct body.
        Inr \<lparr>StatusCode = 500, Body = (demo_api_json, None)\<rparr>\<rparr>) ''42'' ''t'') = (demo_next, None)"
proof -
  have "fst (GetWishlist
     (demo_world\<lparr>http_Post := \<lambda>url ct body.
        Inr \<lparr>StatusCode = code, Body = (demo_api_json, None)\<rparr>\<rparr>) ''42'' ''t'') = (demo_next, None)"
    for code
    using status_code_ignored
      [where w = "demo_world\<lparr>http_Post := \<lambda>url ct body.
          Inr \<lparr>StatusCode = code, Body = (demo_api_json, None)\<rparr>\<rparr>"
        and code = code and fanID = "''42''" and token = "''t''" and body = demo_api_json
        and response = demo_next]
    by (simp add: demo_world_def)
  then show ?thesis by simp
qed

end
